theory Spec2Isabelle
  imports Complex_Main
begin

section \<open>JavaScript numbers\<close>

text \<open>
  The page computes with JavaScript numbers. A finite number is modelled by the rational it
  denotes (arithmetic on finite numbers is exact here: the rounding of binary doubles and
  overflow to infinity are not modelled, and the two zeros are one value); the three
  non-finite values are kept, because the handlers can produce them (a division by a girder
  count of zero) and because every comparison with \<open>NaN\<close> is false.
\<close>

datatype jsnum = Fin rat | PInf | NInf | NaN

fun js_neg :: "jsnum \<Rightarrow> jsnum" where
  "js_neg (Fin a) = Fin (- a)"
| "js_neg PInf = NInf"
| "js_neg NInf = PInf"
| "js_neg NaN = NaN"

fun js_add :: "jsnum \<Rightarrow> jsnum \<Rightarrow> jsnum" where
  "js_add (Fin a) (Fin b) = Fin (a + b)"
| "js_add (Fin a) PInf = PInf"
| "js_add (Fin a) NInf = NInf"
| "js_add PInf (Fin b) = PInf"
| "js_add PInf PInf = PInf"
| "js_add PInf NInf = NaN"
| "js_add NInf (Fin b) = NInf"
| "js_add NInf PInf = NaN"
| "js_add NInf NInf = NInf"
| "js_add NaN y = NaN"
| "js_add x NaN = NaN"

definition js_sub :: "jsnum \<Rightarrow> jsnum \<Rightarrow> jsnum" where
  "js_sub x y = js_add x (js_neg y)"

fun js_mul :: "jsnum \<Rightarrow> jsnum \<Rightarrow> jsnum" where
  "js_mul (Fin a) (Fin b) = Fin (a * b)"
| "js_mul (Fin a) PInf = (if a = 0 then NaN else if 0 < a then PInf else NInf)"
| "js_mul (Fin a) NInf = (if a = 0 then NaN else if 0 < a then NInf else PInf)"
| "js_mul PInf (Fin b) = (if b = 0 then NaN else if 0 < b then PInf else NInf)"
| "js_mul NInf (Fin b) = (if b = 0 then NaN else if 0 < b then NInf else PInf)"
| "js_mul PInf PInf = PInf"
| "js_mul PInf NInf = NInf"
| "js_mul NInf PInf = NInf"
| "js_mul NInf NInf = PInf"
| "js_mul NaN y = NaN"
| "js_mul x NaN = NaN"

fun js_div :: "jsnum \<Rightarrow> jsnum \<Rightarrow> jsnum" where
  "js_div (Fin a) (Fin b) =
     (if b = 0 then (if a = 0 then NaN else if 0 < a then PInf else NInf)
      else Fin (a / b))"
| "js_div (Fin a) PInf = Fin 0"
| "js_div (Fin a) NInf = Fin 0"
| "js_div PInf (Fin b) = (if 0 \<le> b then PInf else NInf)"
| "js_div NInf (Fin b) = (if 0 \<le> b then NInf else PInf)"
| "js_div PInf PInf = NaN"
| "js_div PInf NInf = NaN"
| "js_div NInf PInf = NaN"
| "js_div NInf NInf = NaN"
| "js_div NaN y = NaN"
| "js_div x NaN = NaN"

fun js_lt :: "jsnum \<Rightarrow> jsnum \<Rightarrow> bool" where
  "js_lt (Fin a) (Fin b) = (a < b)"
| "js_lt (Fin a) PInf = True"
| "js_lt (Fin a) NInf = False"
| "js_lt PInf y = False"
| "js_lt NInf (Fin b) = True"
| "js_lt NInf PInf = True"
| "js_lt NInf NInf = False"
| "js_lt NaN y = False"
| "js_lt x NaN = False"

definition js_le :: "jsnum \<Rightarrow> jsnum \<Rightarrow> bool" where
  "js_le x y = (x \<noteq> NaN \<and> y \<noteq> NaN \<and> (js_lt x y \<or> x = y))"

definition js_ge :: "jsnum \<Rightarrow> jsnum \<Rightarrow> bool" where
  "js_ge x y = js_le y x"

text \<open>\<open>Math.floor\<close>; \<open>Math.round\<close> rounds to the nearest integer, a tie towards plus infinity.\<close>

fun Math_floor :: "jsnum \<Rightarrow> jsnum" where
  "Math_floor (Fin a) = Fin (of_int \<lfloor>a\<rfloor>)"
| "Math_floor x = x"

fun Math_round :: "jsnum \<Rightarrow> jsnum" where
  "Math_round (Fin a) = Fin (of_int \<lfloor>a + 1 / 2\<rfloor>)"
| "Math_round x = x"

text \<open>
  \<open>Number(x.toFixed(1))\<close>: \<open>toFixed\<close> prints the sign and then the magnitude with one
  fraction digit, taking the nearest tenth and the larger one at a tie; \<open>Number\<close> reads the
  digits back. The non-finite values print as their names and are read back unchanged.
  (From \<open>1e21\<close> on \<open>toFixed\<close> prints the number itself; a double of that size is a
  whole number, which the rounding leaves as it is.)
\<close>

definition toFixed1 :: "rat \<Rightarrow> rat" where
  "toFixed1 a =
     (if a < 0 then - (of_int \<lfloor>(- a) * 10 + 1 / 2\<rfloor> / 10)
      else of_int \<lfloor>a * 10 + 1 / 2\<rfloor> / 10)"

fun Number_toFixed1 :: "jsnum \<Rightarrow> jsnum" where
  "Number_toFixed1 (Fin a) = Fin (toFixed1 a)"
| "Number_toFixed1 x = x"

section \<open>The state of the page\<close>

record Geometry =
  spacing :: jsnum
  girders :: jsnum
  overhang :: jsnum

text \<open>
  The custom loading parameters: a number field holds \<open>number | null\<close>, the seismic zone
  holds the chosen text.
\<close>

record ManualParams =
  windSpeed :: "jsnum option"
  seismicZone :: string
  minTemp :: "jsnum option"
  maxTemp :: "jsnum option"

text \<open>A JSON value, as far as the request and the answer of the matcher need it.\<close>

datatype json = JNull | JNumber rat | JString string

text \<open>
  \<open>carriagewayWidth\<close> has type \<open>number | ""\<close>: \<open>None\<close> is the empty string, so that
  \<open>typeof carriagewayWidth !== "number"\<close> is \<open>carriagewayWidth = None\<close>. \<open>geometry\<close> is
  \<open>Geometry | null\<close>. \<open>alerts\<close> records the calls of \<open>alert\<close>.
\<close>

record BridgeModule =
  carriagewayWidth :: "jsnum option"
  geometry :: "Geometry option"
  geometryError :: string
  showModal :: bool
  alerts :: "string list"
  manualParams :: ManualParams
  closestLocation :: "(string \<times> json) list option"

text \<open>The initial values given to \<open>useState\<close>.\<close>

definition initial_state :: BridgeModule where
  "initial_state =
     \<lparr>carriagewayWidth = None, geometry = None, geometryError = [], showModal = False,
      alerts = [],
      manualParams = \<lparr>windSpeed = None, seismicZone = [], minTemp = None, maxTemp = None\<rparr>,
      closestLocation = None\<rparr>"

section \<open>The geometry handlers\<close>

definition openGeometryModal :: "BridgeModule \<Rightarrow> BridgeModule" where
  "openGeometryModal st =
     (case carriagewayWidth st of
        None \<Rightarrow>
          st\<lparr>alerts := alerts st @ [''Please enter Carriageway Width before modifying geometry'']\<rparr>
      | Some cw \<Rightarrow>
          (let overallWidth = js_add cw (Fin 5);
               sp = Fin (5 / 2);
               gi = Math_floor (js_div (js_sub overallWidth (Fin 2)) sp);
               ov = Number_toFixed1 (js_sub overallWidth (js_mul gi sp))
           in st\<lparr>geometry := Some \<lparr>spacing = sp, girders = gi, overhang = ov\<rparr>,
                 geometryError := [],
                 showModal := True\<rparr>))"

definition updateFromSpacing :: "jsnum \<Rightarrow> BridgeModule \<Rightarrow> BridgeModule" where
  "updateFromSpacing newSpacing st =
     (case (geometry st, carriagewayWidth st) of
        (Some geo, Some cw) \<Rightarrow>
          (let overallWidth = js_add cw (Fin 5) in
           if js_le newSpacing (Fin 0) \<or> js_ge newSpacing overallWidth
           then st\<lparr>geometryError := ''Invalid spacing''\<rparr>
           else
             (let gi = Math_round (js_div (js_sub overallWidth (overhang geo)) newSpacing);
                  ov = Number_toFixed1 (js_sub overallWidth (js_mul gi newSpacing))
              in if js_lt ov (Fin 0)
                 then st\<lparr>geometryError := ''Geometry constraints violated''\<rparr>
                 else st\<lparr>geometry := Some \<lparr>spacing = newSpacing, girders = gi, overhang = ov\<rparr>,
                         geometryError := []\<rparr>))
      | _ \<Rightarrow> st)"

definition updateFromGirders :: "jsnum \<Rightarrow> BridgeModule \<Rightarrow> BridgeModule" where
  "updateFromGirders newGirders st =
     (case (geometry st, carriagewayWidth st) of
        (Some geo, Some cw) \<Rightarrow>
          (let overallWidth = js_add cw (Fin 5) in
           if js_le newGirders (Fin 0)
           then st\<lparr>geometryError := ''Number of girders must be positive''\<rparr>
           else
             (let ov = Number_toFixed1 (js_sub overallWidth (js_mul (spacing geo) newGirders))
              in if js_lt ov (Fin 0) \<or> js_ge ov overallWidth
                 then st\<lparr>geometryError := ''Geometry constraints violated''\<rparr>
                 else st\<lparr>geometry := Some \<lparr>spacing = spacing geo, girders = newGirders, overhang = ov\<rparr>,
                         geometryError := []\<rparr>))
      | _ \<Rightarrow> st)"

definition updateFromOverhang :: "jsnum \<Rightarrow> BridgeModule \<Rightarrow> BridgeModule" where
  "updateFromOverhang newOverhang st =
     (case (geometry st, carriagewayWidth st) of
        (Some geo, Some cw) \<Rightarrow>
          (let overallWidth = js_add cw (Fin 5) in
           if js_lt newOverhang (Fin 0) \<or> js_ge newOverhang overallWidth
           then st\<lparr>geometryError := ''Invalid overhang''\<rparr>
           else
             (let sp = Number_toFixed1 (js_div (js_sub overallWidth newOverhang) (girders geo))
              in if js_le sp (Fin 0)
                 then st\<lparr>geometryError := ''Geometry constraints violated''\<rparr>
                 else st\<lparr>geometry := Some \<lparr>spacing = sp, girders = girders geo, overhang = newOverhang\<rparr>,
                         geometryError := []\<rparr>))
      | _ \<Rightarrow> st)"

section \<open>Reading the text of an input field\<close>

text \<open>
  \<open>Number(e.target.value)\<close> on the text of a number field. The text is trimmed; the empty
  text is the number zero; otherwise it is read as a signed decimal literal with an optional
  fraction and exponent, or as \<open>Infinity\<close>, and any other text is \<open>NaN\<close>. A number field
  delivers the empty text or a decimal literal, so the hexadecimal, octal and binary
  literals that \<open>Number\<close> also reads are left out.
\<close>

definition is_digit :: "char \<Rightarrow> bool" where
  "is_digit ch = (ch \<in> set ''0123456789'')"

definition is_space :: "char \<Rightarrow> bool" where
  "is_space ch = (ch \<in> set [CHR '' '', CHR 0x09, CHR 0x0A, CHR 0x0B, CHR 0x0C, CHR 0x0D])"

definition digits_val :: "string \<Rightarrow> nat" where
  "digits_val ds = foldl (\<lambda>n ch. 10 * n + (of_char ch - 48)) 0 ds"

definition trim :: "string \<Rightarrow> string" where
  "trim s = rev (dropWhile is_space (rev (dropWhile is_space s)))"

definition parse_exponent :: "string \<Rightarrow> int option" where
  "parse_exponent s =
     (case s of
        [] \<Rightarrow> Some 0
      | ch # t \<Rightarrow>
          if ch = CHR ''e'' \<or> ch = CHR ''E'' then
            (let (neg, ds) =
                   (case t of
                      [] \<Rightarrow> (False, [])
                    | sg # u \<Rightarrow>
                        if sg = CHR ''-'' then (True, u)
                        else if sg = CHR ''+'' then (False, u)
                        else (False, t))
             in if ds \<noteq> [] \<and> list_all is_digit ds
                then Some (if neg then - int (digits_val ds) else int (digits_val ds))
                else None)
          else None)"

definition parse_unsigned :: "string \<Rightarrow> rat option" where
  "parse_unsigned s =
     (let ip = takeWhile is_digit s;
          r1 = dropWhile is_digit s;
          (fp, r2) =
            (case r1 of
               [] \<Rightarrow> ([], r1)
             | ch # t \<Rightarrow>
                 if ch = CHR ''.'' then (takeWhile is_digit t, dropWhile is_digit t)
                 else ([], r1))
      in if ip = [] \<and> fp = [] then None
         else
           (case parse_exponent r2 of
              None \<Rightarrow> None
            | Some ex \<Rightarrow>
                (let m = of_nat (digits_val ip) + of_nat (digits_val fp) / 10 ^ length fp
                 in Some (if 0 \<le> ex then m * 10 ^ nat ex else m / 10 ^ nat (- ex)))))"

definition Number_string :: "string \<Rightarrow> jsnum" where
  "Number_string s =
     (let t = trim s in
      if t = [] then Fin 0
      else if t = ''Infinity'' \<or> t = ''+Infinity'' then PInf
      else if t = ''-Infinity'' then NInf
      else
        (case t of
           [] \<Rightarrow> Fin 0
         | sg # u \<Rightarrow>
             if sg = CHR ''-'' then
               (case parse_unsigned u of None \<Rightarrow> NaN | Some q \<Rightarrow> Fin (- q))
             else if sg = CHR ''+'' then
               (case parse_unsigned u of None \<Rightarrow> NaN | Some q \<Rightarrow> Fin q)
             else
               (case parse_unsigned t of None \<Rightarrow> NaN | Some q \<Rightarrow> Fin q)))"

section \<open>The form fields\<close>

text \<open>
  The change handler of the carriageway width keeps the empty text apart from a number:
  \<open>setCarriagewayWidth(e.target.value === "" ? "" : Number(e.target.value))\<close>.
\<close>

definition setCarriagewayWidth_onChange :: "string \<Rightarrow> BridgeModule \<Rightarrow> BridgeModule" where
  "setCarriagewayWidth_onChange v st =
     st\<lparr>carriagewayWidth := (if v = [] then None else Some (Number_string v))\<rparr>"

text \<open>
  The change handlers of the custom loading parameters:
  \<open>setManualParams((p) => ({ ...p, windSpeed: Number(e.target.value) }))\<close>, and the same for
  the two temperatures; the seismic zone keeps the chosen text.
\<close>

definition setManualParams_windSpeed :: "string \<Rightarrow> BridgeModule \<Rightarrow> BridgeModule" where
  "setManualParams_windSpeed v st =
     st\<lparr>manualParams := (manualParams st)\<lparr>windSpeed := Some (Number_string v)\<rparr>\<rparr>"

definition setManualParams_seismicZone :: "string \<Rightarrow> BridgeModule \<Rightarrow> BridgeModule" where
  "setManualParams_seismicZone v st =
     st\<lparr>manualParams := (manualParams st)\<lparr>seismicZone := v\<rparr>\<rparr>"

definition setManualParams_minTemp :: "string \<Rightarrow> BridgeModule \<Rightarrow> BridgeModule" where
  "setManualParams_minTemp v st =
     st\<lparr>manualParams := (manualParams st)\<lparr>minTemp := Some (Number_string v)\<rparr>\<rparr>"

definition setManualParams_maxTemp :: "string \<Rightarrow> BridgeModule \<Rightarrow> BridgeModule" where
  "setManualParams_maxTemp v st =
     st\<lparr>manualParams := (manualParams st)\<lparr>maxTemp := Some (Number_string v)\<rparr>\<rparr>"

text \<open>
  \<open>JSON.stringify\<close> writes a finite number as a number and \<open>null\<close>, \<open>NaN\<close> and the
  infinities as \<open>null\<close>.
\<close>

fun json_number :: "jsnum option \<Rightarrow> json" where
  "json_number (Some (Fin a)) = JNumber a"
| "json_number x = JNull"

text \<open>The body that \<open>fetchClosestLocation\<close> posts to \<open>/api/closest/\<close>.\<close>

definition closest_request :: "ManualParams \<Rightarrow> (string \<times> json) list" where
  "closest_request p =
     [(''wind_speed'', json_number (windSpeed p)),
      (''seismic_zone'', JString (seismicZone p)),
      (''min_temp'', json_number (minTemp p)),
      (''max_temp'', json_number (maxTemp p))]"

text \<open>
  \<open>manualParams\<close> is always an object, so the guard \<open>if (!manualParams) return\<close> never
  returns. The answer of the server is the parameter \<open>server\<close>.
\<close>

definition fetchClosestLocation ::
  "((string \<times> json) list \<Rightarrow> (string \<times> json) list) \<Rightarrow> BridgeModule \<Rightarrow> BridgeModule" where
  "fetchClosestLocation server st =
     st\<lparr>closestLocation := Some (server (closest_request (manualParams st)))\<rparr>"

section \<open>The location matcher\<close>

text \<open>
  Modelled from the spec: the matcher \<open>findClosest\<close> runs on the server and its code is not
  among the sources; only the page that posts the query to it is. The definitions of this
  section follow section 4.2 of the specification. The scale constants and weights, which
  the specification leaves to the implementation, are the parameter \<open>K\<close>; of the two
  policies allowed for a query with no field, the rejection with \<open>EmptyQuery\<close> is taken.
\<close>

datatype SeismicZone = ZoneI | ZoneII | ZoneIII | ZoneIV | ZoneV

fun rank :: "SeismicZone \<Rightarrow> int" where
  "rank ZoneI = 1"
| "rank ZoneII = 2"
| "rank ZoneIII = 3"
| "rank ZoneIV = 4"
| "rank ZoneV = 5"

definition zone_of_string :: "string \<Rightarrow> SeismicZone option" where
  "zone_of_string s =
     (if s = ''I'' then Some ZoneI
      else if s = ''II'' then Some ZoneII
      else if s = ''III'' then Some ZoneIII
      else if s = ''IV'' then Some ZoneIV
      else if s = ''V'' then Some ZoneV
      else None)"

record Location =
  state :: string
  district :: string
  windSpeed_l :: rat
  seismicZone_l :: SeismicZone
  minTemp_l :: rat
  maxTemp_l :: rat

record MatchQuery =
  windSpeed_q :: "rat option"
  seismicZone_q :: "string option"
  minTemp_q :: "rat option"
  maxTemp_q :: "rat option"

record MatcherConstants =
  windSpan :: rat
  zoneSpan :: rat
  tempSpan :: rat
  windWeight :: rat
  zoneWeight :: rat
  tempWeight :: rat

datatype MatchError = UnknownSeismicZone | EmptyQuery

datatype MatchOutcome = NoMatch | MatchResult Location rat

definition abs_diff :: "rat option \<Rightarrow> rat \<Rightarrow> rat" where
  "abs_diff qv lv = (case qv of None \<Rightarrow> 0 | Some v \<Rightarrow> \<bar>v - lv\<bar>)"

text \<open>The terms of the fields that are present: wind speed, seismic zone, temperature profile.\<close>

definition present_terms :: "MatcherConstants \<Rightarrow> MatchQuery \<Rightarrow> Location \<Rightarrow> rat list" where
  "present_terms K q l =
     (case windSpeed_q q of
        None \<Rightarrow> []
      | Some w \<Rightarrow> [windWeight K * (\<bar>w - windSpeed_l l\<bar> / windSpan K)])
     @ (case Option.bind (seismicZone_q q) zone_of_string of
          None \<Rightarrow> []
        | Some z \<Rightarrow> [zoneWeight K * (of_int \<bar>rank z - rank (seismicZone_l l)\<bar> / zoneSpan K)])
     @ (if minTemp_q q = None \<and> maxTemp_q q = None then []
        else [tempWeight K *
                ((abs_diff (minTemp_q q) (minTemp_l l) + abs_diff (maxTemp_q q) (maxTemp_l l))
                 / tempSpan K)])"

definition dissimilarity :: "MatcherConstants \<Rightarrow> MatchQuery \<Rightarrow> Location \<Rightarrow> rat" where
  "dissimilarity K q l = sum_list (present_terms K q l) / of_nat (length (present_terms K q l))"

definition clamp :: "rat \<Rightarrow> rat \<Rightarrow> rat \<Rightarrow> rat" where
  "clamp x lo hi = max lo (min hi x)"

definition confidence :: "rat \<Rightarrow> rat" where
  "confidence d = 100 * (1 - clamp d 0 1)"

text \<open>The linear scan: a later location replaces the best one only when it is strictly closer.\<close>

fun scan :: "MatcherConstants \<Rightarrow> MatchQuery \<Rightarrow> Location \<Rightarrow> Location list \<Rightarrow> Location" where
  "scan K q best [] = best"
| "scan K q best (l # ls) =
     (if dissimilarity K q l < dissimilarity K q best then scan K q l ls else scan K q best ls)"

text \<open>
  Modelled from the spec: \<open>findClosest\<close> itself, which is not among the sources. An empty
  catalog is answered before the query is looked at, so that it never gives an error.
\<close>

definition findClosest ::
  "MatcherConstants \<Rightarrow> MatchQuery \<Rightarrow> Location list \<Rightarrow> MatchError + MatchOutcome" where
  "findClosest K q catalog =
     (case catalog of
        [] \<Rightarrow> Inr NoMatch
      | l # ls \<Rightarrow>
          if seismicZone_q q \<noteq> None \<and> Option.bind (seismicZone_q q) zone_of_string = None
          then Inl UnknownSeismicZone
          else if windSpeed_q q = None \<and> seismicZone_q q = None
                  \<and> minTemp_q q = None \<and> maxTemp_q q = None
          then Inl EmptyQuery
          else (let best = scan K q l ls
                in Inr (MatchResult best (confidence (dissimilarity K q best)))))"

section \<open>A worked example\<close>

text \<open>The page after the width 7.5 is typed and the geometry dialog is opened.\<close>

definition example_state :: BridgeModule where
  "example_state = openGeometryModal (setCarriagewayWidth_onChange ''7.5'' initial_state)"




section \<open>The invariant of the specification\<close>


section \<open>Rounding\<close>










section \<open>The handlers on finite numbers\<close>








section \<open>The triples that the solver stores\<close>




section \<open>The three edits\<close>









text \<open>
  C6: whenever one of the three edits ends with an error message, the stored triple is the
  one from before the edit.
\<close>

theorem error_retains_triple:
  "(geometryError (updateFromSpacing x st) \<noteq> [] \<longrightarrow>
      geometry (updateFromSpacing x st) = geometry st)
 \<and> (geometryError (updateFromGirders x st) \<noteq> [] \<longrightarrow>
      geometry (updateFromGirders x st) = geometry st)
 \<and> (geometryError (updateFromOverhang x st) \<noteq> [] \<longrightarrow>
      geometry (updateFromOverhang x st) = geometry st)"
  by (simp add: updateFromSpacing_def updateFromGirders_def updateFromOverhang_def Let_def
       split: option.splits)

theorem error_retains_triple_witness:
  "geometryError (updateFromSpacing (Fin 13) example_state) \<noteq> []
   \<and> geometry (updateFromSpacing (Fin 13) example_state) = geometry example_state
   \<and> geometryError (updateFromGirders (Fin 0) example_state) \<noteq> []
   \<and> geometry (updateFromGirders (Fin 0) example_state) = geometry example_state
   \<and> geometryError (updateFromOverhang (Fin 13) example_state) \<noteq> []
   \<and> geometry (updateFromOverhang (Fin 13) example_state) = geometry example_state"
proof -
  have e1: "geometryError (updateFromSpacing (Fin 13) example_state) \<noteq> []" by code_simp
  have e2: "geometryError (updateFromGirders (Fin 0) example_state) \<noteq> []" by code_simp
  have e3: "geometryError (updateFromOverhang (Fin 13) example_state) \<noteq> []" by code_simp
  from error_retains_triple [of "Fin 13" example_state] e1 e3
  have "geometry (updateFromSpacing (Fin 13) example_state) = geometry example_state"
    and "geometry (updateFromOverhang (Fin 13) example_state) = geometry example_state"
    by simp_all
  moreover from error_retains_triple [of "Fin 0" example_state] e2
  have "geometry (updateFromGirders (Fin 0) example_state) = geometry example_state"
    by simp
  ultimately show ?thesis using e1 e2 e3 by blast
qed

text \<open>
  C10: without a geometry, or without a numeric carriageway width, each of the three edits
  returns the page unchanged: neither the triple nor the error message is touched.
\<close>

theorem uninitialised_noop:
  assumes "geometry st = None \<or> carriagewayWidth st = None"
  shows "updateFromSpacing x st = st \<and> updateFromGirders x st = st \<and> updateFromOverhang x st = st"
  using assms
  by (auto simp add: updateFromSpacing_def updateFromGirders_def updateFromOverhang_def
       split: option.splits)

theorem uninitialised_noop_witness:
  "geometry initial_state = None
   \<and> updateFromSpacing (Fin 3) initial_state = initial_state
   \<and> updateFromGirders (Fin 3) initial_state = initial_state
   \<and> updateFromOverhang (Fin 3) initial_state = initial_state"
proof -
  have g: "geometry initial_state = None \<or> carriagewayWidth initial_state = None"
    by (simp add: initial_state_def)
  from uninitialised_noop [OF g, of "Fin 3"] show ?thesis
    by (simp add: initial_state_def)
qed

section \<open>Entering the same spacing twice\<close>




section \<open>The query sent to the matcher\<close>

text \<open>
  C8: a wind speed that is typed and then cleared is sent as the number zero, while the
  fields never touched are sent as \<open>null\<close>; the handler of the carriageway width keeps the
  cleared field empty.
\<close>

theorem cleared_field_sent_as_zero:
  "closest_request (manualParams
     (setManualParams_windSpeed [] (setManualParams_windSpeed ''5'' initial_state))) =
   [(''wind_speed'', JNumber 0), (''seismic_zone'', JString []),
    (''min_temp'', JNull), (''max_temp'', JNull)]
   \<and> carriagewayWidth
       (setCarriagewayWidth_onChange [] (setCarriagewayWidth_onChange ''5'' initial_state)) = None"
proof -
  have a: "closest_request (manualParams
     (setManualParams_windSpeed [] (setManualParams_windSpeed ''5'' initial_state))) =
   [(''wind_speed'', JNumber 0), (''seismic_zone'', JString []),
    (''min_temp'', JNull), (''max_temp'', JNull)]"
    by code_simp
  have b: "carriagewayWidth
       (setCarriagewayWidth_onChange [] (setCarriagewayWidth_onChange ''5'' initial_state)) = None"
    by (simp add: setCarriagewayWidth_onChange_def)
  from a b show ?thesis by blast
qed

text \<open>
  C9: on an empty catalog \<open>findClosest\<close> answers \<open>NoMatch\<close>, whatever the query is: no
  error and no location.
\<close>

theorem findClosest_empty_catalog: "findClosest K q [] = Inr NoMatch"
  by (simp add: findClosest_def)

end
